theory Spec2Isabelle
  imports Complex_Main
begin

section \<open>JavaScript numbers\<close>

text \<open>
  The ROI engine (\<^verbatim>\<open>src/lib/roi-calculator.ts\<close>) computes with JavaScript numbers.
  A number is modelled as a finite value, one of the two infinities, or NaN. Finite
  values are exact reals: the arithmetic on them is the mathematical one, so neither the
  rounding error of a binary64 operation nor overflow of a finite result to an infinity
  is part of the model, and there is a single zero (no \<^verbatim>\<open>-0\<close>). The special values follow
  the ECMAScript rules for \<^verbatim>\<open>+\<close>, \<^verbatim>\<open>-\<close>, \<^verbatim>\<open>*\<close>, \<^verbatim>\<open>/\<close>, the comparisons,
  \<^verbatim>\<open>Math.round\<close> and \<^verbatim>\<open>Math.min\<close>.
\<close>

datatype number = is_Fin: Fin (val: real) | PosInf | NegInf | NaN

instantiation number :: "{plus, minus, times, inverse, ord}"
begin

fun plus_number :: "number \<Rightarrow> number \<Rightarrow> number" where
  "plus_number NaN y = NaN"
| "plus_number x NaN = NaN"
| "plus_number (Fin a) (Fin b) = Fin (a + b)"
| "plus_number PosInf NegInf = NaN"
| "plus_number NegInf PosInf = NaN"
| "plus_number PosInf y = PosInf"
| "plus_number NegInf y = NegInf"
| "plus_number (Fin a) y = y"

fun minus_number :: "number \<Rightarrow> number \<Rightarrow> number" where
  "minus_number NaN y = NaN"
| "minus_number x NaN = NaN"
| "minus_number (Fin a) (Fin b) = Fin (a - b)"
| "minus_number PosInf PosInf = NaN"
| "minus_number NegInf NegInf = NaN"
| "minus_number PosInf y = PosInf"
| "minus_number NegInf y = NegInf"
| "minus_number (Fin a) PosInf = NegInf"
| "minus_number (Fin a) NegInf = PosInf"

fun times_number :: "number \<Rightarrow> number \<Rightarrow> number" where
  "times_number NaN y = NaN"
| "times_number x NaN = NaN"
| "times_number (Fin a) (Fin b) = Fin (a * b)"
| "times_number (Fin a) PosInf = (if a = 0 then NaN else if 0 < a then PosInf else NegInf)"
| "times_number (Fin a) NegInf = (if a = 0 then NaN else if 0 < a then NegInf else PosInf)"
| "times_number PosInf (Fin b) = (if b = 0 then NaN else if 0 < b then PosInf else NegInf)"
| "times_number NegInf (Fin b) = (if b = 0 then NaN else if 0 < b then NegInf else PosInf)"
| "times_number PosInf PosInf = PosInf"
| "times_number PosInf NegInf = NegInf"
| "times_number NegInf PosInf = NegInf"
| "times_number NegInf NegInf = PosInf"

fun divide_number :: "number \<Rightarrow> number \<Rightarrow> number" where
  "divide_number NaN y = NaN"
| "divide_number x NaN = NaN"
| "divide_number (Fin a) (Fin b) =
     (if b \<noteq> 0 then Fin (a / b)
      else if a = 0 then NaN else if 0 < a then PosInf else NegInf)"
| "divide_number (Fin a) y = Fin 0"
| "divide_number PosInf (Fin b) = (if 0 \<le> b then PosInf else NegInf)"
| "divide_number NegInf (Fin b) = (if 0 \<le> b then NegInf else PosInf)"
| "divide_number x y = NaN"

definition inverse_number :: "number \<Rightarrow> number" where
  "inverse_number x = divide (Fin 1) x"

fun less_number :: "number \<Rightarrow> number \<Rightarrow> bool" where
  "less_number NaN y = False"
| "less_number x NaN = False"
| "less_number (Fin a) (Fin b) = (a < b)"
| "less_number x NegInf = False"
| "less_number PosInf y = False"
| "less_number NegInf y = True"
| "less_number (Fin a) PosInf = True"

fun less_eq_number :: "number \<Rightarrow> number \<Rightarrow> bool" where
  "less_eq_number NaN y = False"
| "less_eq_number x NaN = False"
| "less_eq_number (Fin a) (Fin b) = (a \<le> b)"
| "less_eq_number NegInf y = True"
| "less_eq_number x PosInf = True"
| "less_eq_number x NegInf = False"
| "less_eq_number PosInf y = False"

instance ..

end

text \<open>\<^verbatim>\<open>Math.round\<close>: the nearest integer, a tie going towards \<^verbatim>\<open>+Infinity\<close>.\<close>

fun Math_round :: "number \<Rightarrow> number" where
  "Math_round (Fin a) = Fin (of_int \<lfloor>a + 1 / 2\<rfloor>)"
| "Math_round x = x"

text \<open>\<^verbatim>\<open>Math.min\<close> of two arguments: NaN as soon as one of them is.\<close>

definition Math_min :: "number \<Rightarrow> number \<Rightarrow> number" where
  "Math_min x y = (if x = NaN \<or> y = NaN then NaN else if y < x then y else x)"

text \<open>\<^verbatim>\<open>Number.isInteger\<close>.\<close>

fun isInteger :: "number \<Rightarrow> bool" where
  "isInteger (Fin a) = (of_int \<lfloor>a\<rfloor> = a)"
| "isInteger x = False"

section \<open>Data model (\<^verbatim>\<open>src/lib/schemas.ts\<close>)\<close>

record RoiInputs =
  nPeople :: number
  costPerHour :: number
  hoursSavedPerPersonPerMonth :: number
  errorCostAnnual :: number
  errorReductionPct :: number
  cloudSpendAnnual :: number
  cloudReductionPct :: number
  riskCostAnnual :: number
  riskReductionPct :: number
  licenseCostAnnual :: number
  implementationOneTime :: number

record RoiScenario =
  totalBenefit :: number
  year1Net :: number
  roiPct :: number
  paybackMonths :: number

record RoiOutput =
  low :: RoiScenario
  mostLikely :: RoiScenario
  high :: RoiScenario

text \<open>
  The zod schema \<^verbatim>\<open>RoiInputs\<close>: \<^verbatim>\<open>z.number()\<close> rejects NaN, \<^verbatim>\<open>.min\<close> and \<^verbatim>\<open>.max\<close>
  are inclusive bounds, \<^verbatim>\<open>.int()\<close> asks for an integer.
\<close>

definition RoiInputs_schema :: "RoiInputs \<Rightarrow> bool" where
  "RoiInputs_schema inputs =
    (isInteger (nPeople inputs) \<and> Fin 1 \<le> nPeople inputs
     \<and> Fin 0 \<le> costPerHour inputs
     \<and> Fin 0 \<le> hoursSavedPerPersonPerMonth inputs
     \<and> Fin 0 \<le> errorCostAnnual inputs
     \<and> Fin 0 \<le> errorReductionPct inputs \<and> errorReductionPct inputs \<le> Fin 1
     \<and> Fin 0 \<le> cloudSpendAnnual inputs
     \<and> Fin 0 \<le> cloudReductionPct inputs \<and> cloudReductionPct inputs \<le> Fin 1
     \<and> Fin 0 \<le> riskCostAnnual inputs
     \<and> Fin 0 \<le> riskReductionPct inputs \<and> riskReductionPct inputs \<le> Fin 1
     \<and> Fin 0 \<le> licenseCostAnnual inputs
     \<and> Fin 0 \<le> implementationOneTime inputs)"

section \<open>The ROI engine (\<^verbatim>\<open>src/lib/roi-calculator.ts\<close>)\<close>

text \<open>
  The engine's only effect is \<^verbatim>\<open>console.log\<close>. The console is threaded through the
  functions as the list of lines written so far; a line records which message it is and
  the numbers interpolated into it (their rendering as text is not modelled).
\<close>

datatype log_line = LogStarting | LogScenario number number | LogCompleted

type_synonym console = "log_line list"

datatype error = Error string

definition calculateScenario :: "RoiInputs \<Rightarrow> console \<Rightarrow> RoiScenario \<times> console" where
  "calculateScenario inputs con =
    (let laborSavings =
           nPeople inputs * hoursSavedPerPersonPerMonth inputs * Fin 12 * costPerHour inputs;
         qualitySavings = errorCostAnnual inputs * errorReductionPct inputs;
         cloudSavings = cloudSpendAnnual inputs * cloudReductionPct inputs;
         riskAvoidance = riskCostAnnual inputs * riskReductionPct inputs;
         totalBenefit' = laborSavings + qualitySavings + cloudSavings + riskAvoidance;
         totalCosts = licenseCostAnnual inputs + implementationOneTime inputs;
         year1Net' = totalBenefit' - totalCosts;
         roiPct' = (if totalCosts > Fin 0
                    then ((totalBenefit' - totalCosts) / totalCosts) * Fin 100 else Fin 0);
         monthlyBenefit = totalBenefit' / Fin 12;
         paybackMonths' = (if monthlyBenefit > Fin 0 then totalCosts / monthlyBenefit else PosInf)
     in (\<lparr>totalBenefit = Math_round totalBenefit',
          year1Net = Math_round year1Net',
          roiPct = Math_round (roiPct' * Fin 10) / Fin 10,
          paybackMonths = Math_round (paybackMonths' * Fin 10) / Fin 10\<rparr>,
         con @ [LogScenario totalBenefit' roiPct']))"

definition scaleInputs :: "RoiInputs \<Rightarrow> number \<Rightarrow> RoiInputs" where
  "scaleInputs inputs scaleFactor =
    inputs\<lparr>hoursSavedPerPersonPerMonth := hoursSavedPerPersonPerMonth inputs * scaleFactor,
           errorReductionPct := Math_min (Fin 1) (errorReductionPct inputs * scaleFactor),
           cloudReductionPct := Math_min (Fin 1) (cloudReductionPct inputs * scaleFactor),
           riskReductionPct := Math_min (Fin 1) (riskReductionPct inputs * scaleFactor)\<rparr>"

definition calculateRoiScenarios :: "RoiInputs \<Rightarrow> console \<Rightarrow> (error + RoiOutput) \<times> console" where
  "calculateRoiScenarios inputs con =
    (let con1 = con @ [LogStarting] in
     if nPeople inputs \<le> Fin 0
     then (Inl (Error ''Number of people must be greater than 0''), con1)
     else if costPerHour inputs < Fin 0
     then (Inl (Error ''Cost per hour cannot be negative''), con1)
     else
       let (lowScenario, con2) = calculateScenario (scaleInputs inputs (Fin 0.75)) con1;
           (mostLikelyScenario, con3) = calculateScenario inputs con2;
           (highScenario, con4) = calculateScenario (scaleInputs inputs (Fin 1.25)) con3;
           result = \<lparr>low = lowScenario, mostLikely = mostLikelyScenario, high = highScenario\<rparr>
       in (Inr result, con4 @ [LogCompleted]))"


section \<open>Notions of the specification\<close>

text \<open>The worked example of the specification.\<close>

definition spec_example :: RoiInputs where
  "spec_example =
    \<lparr>nPeople = Fin 10, costPerHour = Fin 50, hoursSavedPerPersonPerMonth = Fin 5,
     errorCostAnnual = Fin 100000, errorReductionPct = Fin 0.3,
     cloudSpendAnnual = Fin 50000, cloudReductionPct = Fin 0.2,
     riskCostAnnual = Fin 20000, riskReductionPct = Fin 0.5,
     licenseCostAnnual = Fin 60000, implementationOneTime = Fin 10000\<rparr>"


text \<open>
  The specification's data model types every field as an integer or a decimal: a finite
  number. A valid record is one that passes the schema and has finite fields only.
\<close>

definition finite_inputs :: "RoiInputs \<Rightarrow> bool" where
  "finite_inputs inputs =
    (is_Fin (nPeople inputs) \<and> is_Fin (costPerHour inputs)
     \<and> is_Fin (hoursSavedPerPersonPerMonth inputs)
     \<and> is_Fin (errorCostAnnual inputs) \<and> is_Fin (errorReductionPct inputs)
     \<and> is_Fin (cloudSpendAnnual inputs) \<and> is_Fin (cloudReductionPct inputs)
     \<and> is_Fin (riskCostAnnual inputs) \<and> is_Fin (riskReductionPct inputs)
     \<and> is_Fin (licenseCostAnnual inputs) \<and> is_Fin (implementationOneTime inputs))"

definition RoiInputs_valid :: "RoiInputs \<Rightarrow> bool" where
  "RoiInputs_valid inputs = (RoiInputs_schema inputs \<and> finite_inputs inputs)"

text \<open>
  The closed forms of the specification's \<^verbatim>\<open>computeScenario\<close>, written from its
  formulas, without rounding.
\<close>

definition spec_totalBenefit :: "RoiInputs \<Rightarrow> number" where
  "spec_totalBenefit inputs =
     nPeople inputs * hoursSavedPerPersonPerMonth inputs * Fin 12 * costPerHour inputs
     + errorCostAnnual inputs * errorReductionPct inputs
     + cloudSpendAnnual inputs * cloudReductionPct inputs
     + riskCostAnnual inputs * riskReductionPct inputs"

definition spec_totalCosts :: "RoiInputs \<Rightarrow> number" where
  "spec_totalCosts inputs = licenseCostAnnual inputs + implementationOneTime inputs"

definition spec_roiPct :: "RoiInputs \<Rightarrow> number" where
  "spec_roiPct inputs =
     (if spec_totalCosts inputs > Fin 0
      then ((spec_totalBenefit inputs - spec_totalCosts inputs) / spec_totalCosts inputs) * Fin 100
      else Fin 0)"

definition spec_paybackMonths :: "RoiInputs \<Rightarrow> number" where
  "spec_paybackMonths inputs =
     (if spec_totalBenefit inputs / Fin 12 > Fin 0
      then spec_totalCosts inputs / (spec_totalBenefit inputs / Fin 12)
      else PosInf)"

text \<open>Rounding to one decimal place.\<close>

definition one_decimal :: "number \<Rightarrow> number" where
  "one_decimal x = Math_round (x * Fin 10) / Fin 10"

text \<open>
  A caller that invokes the engine once per record of a list, one call after the other,
  on the console the previous call left.
\<close>

fun invocations :: "RoiInputs list \<Rightarrow> console \<Rightarrow> (error + RoiOutput) list \<times> console" where
  "invocations [] con = ([], con)"
| "invocations (inputs # rest) con =
     (let (r, con') = calculateRoiScenarios inputs con;
          (rs, con'') = invocations rest con'
      in (r # rs, con''))"

section \<open>Auxiliary facts\<close>




lemma calculateScenario_spec:
  "fst (calculateScenario inputs con) =
     \<lparr>totalBenefit = Math_round (spec_totalBenefit inputs),
      year1Net = Math_round (spec_totalBenefit inputs - spec_totalCosts inputs),
      roiPct = one_decimal (spec_roiPct inputs),
      paybackMonths = one_decimal (spec_paybackMonths inputs)\<rparr>"
  by (simp add: calculateScenario_def Let_def spec_totalBenefit_def spec_totalCosts_def
      spec_roiPct_def spec_paybackMonths_def one_decimal_def)

lemma calculateRoiScenarios_accepted:
  assumes "\<not> nPeople inputs \<le> Fin 0" and "\<not> costPerHour inputs < Fin 0"
  shows "fst (calculateRoiScenarios inputs con) =
     Inr \<lparr>low = fst (calculateScenario (scaleInputs inputs (Fin 0.75)) []),
          mostLikely = fst (calculateScenario inputs []),
          high = fst (calculateScenario (scaleInputs inputs (Fin 1.25)) [])\<rparr>"
  using assms
  by (simp add: calculateRoiScenarios_def Let_def split_beta calculateScenario_spec)

lemma schema_accepted:
  assumes "RoiInputs_schema inputs"
  shows "\<not> nPeople inputs \<le> Fin 0" and "\<not> costPerHour inputs < Fin 0"
proof -
  from assms have n: "Fin 1 \<le> nPeople inputs" and c: "Fin 0 \<le> costPerHour inputs"
    by (simp_all add: RoiInputs_schema_def)
  from n show "\<not> nPeople inputs \<le> Fin 0" by (cases "nPeople inputs") simp_all
  from c show "\<not> costPerHour inputs < Fin 0" by (cases "costPerHour inputs") simp_all
qed







lemma times_Fin_1: "x * Fin 1 = x"
  by (cases x) simp_all

lemma Math_min_1_id: "x \<le> Fin 1 \<Longrightarrow> Math_min (Fin 1) x = x"
  by (cases x) (auto simp add: Math_min_def)

lemma scaleInputs_one:
  assumes "RoiInputs_schema inputs"
  shows "scaleInputs inputs (Fin 1) = inputs"
  using assms by (simp add: scaleInputs_def RoiInputs_schema_def times_Fin_1 Math_min_1_id)

lemma calculateRoiScenarios_console_irrelevant:
  "fst (calculateRoiScenarios inputs con) = fst (calculateRoiScenarios inputs con')"
  by (simp add: calculateRoiScenarios_def Let_def split_beta calculateScenario_spec)

lemma spec_example_valid: "RoiInputs_valid spec_example"
  by (simp add: RoiInputs_valid_def RoiInputs_schema_def finite_inputs_def spec_example_def)

lemma spec_example_output:
  "fst (calculateRoiScenarios spec_example con) =
     Inr \<lparr>low = \<lparr>totalBenefit = Fin 60000, year1Net = Fin (- 10000),
                 roiPct = Fin (- 14.3), paybackMonths = Fin 14\<rparr>,
          mostLikely = \<lparr>totalBenefit = Fin 80000, year1Net = Fin 10000,
                 roiPct = Fin 14.3, paybackMonths = Fin 10.5\<rparr>,
          high = \<lparr>totalBenefit = Fin 100000, year1Net = Fin 30000,
                 roiPct = Fin 42.9, paybackMonths = Fin 8.4\<rparr>\<rparr>"
  by (simp add: calculateRoiScenarios_def calculateScenario_def scaleInputs_def
      Math_min_def spec_example_def Let_def)


section \<open>The claims\<close>

subsection \<open>C1: the closed forms of a scenario\<close>


subsection \<open>C2: the two fatal checks\<close>



subsection \<open>C3: the payback sentinel\<close>





subsection \<open>C4: what scaling changes\<close>

text \<open>
  C4. For every input record and every factor, \<^verbatim>\<open>scaleInputs\<close> multiplies the hours
  saved by the factor, without a ceiling, multiplies each of the three reduction
  percentages by the factor and caps the product at 1, and leaves the seven other fields
  as they are, the two cost fields among them.
\<close>

theorem scaleInputs_frame:
  "hoursSavedPerPersonPerMonth (scaleInputs inputs factor)
     = hoursSavedPerPersonPerMonth inputs * factor
   \<and> errorReductionPct (scaleInputs inputs factor)
     = Math_min (Fin 1) (errorReductionPct inputs * factor)
   \<and> cloudReductionPct (scaleInputs inputs factor)
     = Math_min (Fin 1) (cloudReductionPct inputs * factor)
   \<and> riskReductionPct (scaleInputs inputs factor)
     = Math_min (Fin 1) (riskReductionPct inputs * factor)
   \<and> licenseCostAnnual (scaleInputs inputs factor) = licenseCostAnnual inputs
   \<and> implementationOneTime (scaleInputs inputs factor) = implementationOneTime inputs
   \<and> nPeople (scaleInputs inputs factor) = nPeople inputs
   \<and> costPerHour (scaleInputs inputs factor) = costPerHour inputs
   \<and> errorCostAnnual (scaleInputs inputs factor) = errorCostAnnual inputs
   \<and> cloudSpendAnnual (scaleInputs inputs factor) = cloudSpendAnnual inputs
   \<and> riskCostAnnual (scaleInputs inputs factor) = riskCostAnnual inputs
   \<and> Math_min (Fin 1) (Fin p * Fin f) = Fin (if 1 < p * f then 1 else p * f)"
  by (simp add: scaleInputs_def Math_min_def)

subsection \<open>C5: the three scenarios are ordered\<close>



subsection \<open>C6: no costs, no ROI\<close>

text \<open>
  C6. For every input record whose total costs (license plus implementation) are zero,
  the ROI percentage returned by \<^verbatim>\<open>calculateScenario\<close> is exactly 0, whatever the
  benefit is.
\<close>

theorem roiPct_zero_costs:
  assumes "licenseCostAnnual inputs + implementationOneTime inputs = Fin 0"
  shows "roiPct (fst (calculateScenario inputs con)) = Fin 0"
  using assms by (simp add: calculateScenario_def Let_def)

theorem roiPct_zero_costs_witness:
  "licenseCostAnnual (spec_example\<lparr>licenseCostAnnual := Fin 0, implementationOneTime := Fin 0\<rparr>)
     + implementationOneTime
         (spec_example\<lparr>licenseCostAnnual := Fin 0, implementationOneTime := Fin 0\<rparr>) = Fin 0
   \<and> roiPct (fst (calculateScenario
        (spec_example\<lparr>licenseCostAnnual := Fin 0, implementationOneTime := Fin 0\<rparr>) [])) = Fin 0"
proof -
  have z: "licenseCostAnnual
        (spec_example\<lparr>licenseCostAnnual := Fin 0, implementationOneTime := Fin 0\<rparr>)
     + implementationOneTime
         (spec_example\<lparr>licenseCostAnnual := Fin 0, implementationOneTime := Fin 0\<rparr>) = Fin 0"
    by simp
  from z roiPct_zero_costs [OF z, of "[]"] show ?thesis by (rule conjI)
qed

subsection \<open>C7: the advisory warnings\<close>


subsection \<open>C8: the most likely scenario is the unscaled one\<close>

text \<open>
  C8. For every input record that \<^verbatim>\<open>calculateRoiScenarios\<close> accepts, the most likely
  scenario of its output is the scenario \<^verbatim>\<open>calculateScenario\<close> computes from the
  record itself, field for field; for a record of the schema this is also the scenario
  of the record scaled by the factor 1.
\<close>

theorem mostLikely_unscaled:
  assumes "fst (calculateRoiScenarios inputs con) = Inr out"
  shows "mostLikely out = fst (calculateScenario inputs con')
       \<and> (RoiInputs_schema inputs \<longrightarrow>
            mostLikely out = fst (calculateScenario (scaleInputs inputs (Fin 1)) con'))"
proof (cases "nPeople inputs \<le> Fin 0 \<or> costPerHour inputs < Fin 0")
  case True
  then have "isl (fst (calculateRoiScenarios inputs con))"
    by (auto simp add: calculateRoiScenarios_def Let_def)
  with assms show ?thesis by simp
next
  case False
  then have "fst (calculateRoiScenarios inputs con) =
     Inr \<lparr>low = fst (calculateScenario (scaleInputs inputs (Fin 0.75)) []),
          mostLikely = fst (calculateScenario inputs []),
          high = fst (calculateScenario (scaleInputs inputs (Fin 1.25)) [])\<rparr>"
    by (intro calculateRoiScenarios_accepted) simp_all
  with assms have "mostLikely out = fst (calculateScenario inputs [])" by auto
  then have "mostLikely out = fst (calculateScenario inputs con')"
    by (simp add: calculateScenario_spec)
  then show ?thesis by (simp add: scaleInputs_one)
qed

theorem mostLikely_unscaled_witness:
  "fst (calculateRoiScenarios spec_example []) =
     Inr \<lparr>low = \<lparr>totalBenefit = Fin 60000, year1Net = Fin (- 10000),
                 roiPct = Fin (- 14.3), paybackMonths = Fin 14\<rparr>,
          mostLikely = \<lparr>totalBenefit = Fin 80000, year1Net = Fin 10000,
                 roiPct = Fin 14.3, paybackMonths = Fin 10.5\<rparr>,
          high = \<lparr>totalBenefit = Fin 100000, year1Net = Fin 30000,
                 roiPct = Fin 42.9, paybackMonths = Fin 8.4\<rparr>\<rparr>
   \<and> RoiInputs_schema spec_example
   \<and> \<lparr>totalBenefit = Fin 80000, year1Net = Fin 10000,
        roiPct = Fin 14.3, paybackMonths = Fin 10.5\<rparr> = fst (calculateScenario spec_example [])
   \<and> \<lparr>totalBenefit = Fin 80000, year1Net = Fin 10000,
        roiPct = Fin 14.3, paybackMonths = Fin 10.5\<rparr>
       = fst (calculateScenario (scaleInputs spec_example (Fin 1)) [])"
proof -
  have s: "RoiInputs_schema spec_example"
    using spec_example_valid by (simp add: RoiInputs_valid_def)
  note m = mostLikely_unscaled [OF spec_example_output [of "[]"], of "[]",
      unfolded RoiOutput.select_convs]
  note a = m [THEN conjunct1]
  note b = m [THEN conjunct2, THEN mp, OF s]
  from spec_example_output [of "[]"] s a b show ?thesis by (intro conjI)
qed

subsection \<open>C9: no state between calls\<close>

text \<open>
  C9. The value \<^verbatim>\<open>calculateRoiScenarios\<close> returns for a record does not depend on the
  console it starts from, the only state it touches; so in any sequence of calls every
  result is the one a first call on that record gives, and two calls on equal records
  return equal results whatever was called before or between them.
\<close>

theorem calculateRoiScenarios_stateless:
  "fst (calculateRoiScenarios inputs con) = fst (calculateRoiScenarios inputs con')
   \<and> fst (invocations calls con) = map (\<lambda>inputs. fst (calculateRoiScenarios inputs [])) calls"
proof
  show "fst (calculateRoiScenarios inputs con) = fst (calculateRoiScenarios inputs con')"
    by (rule calculateRoiScenarios_console_irrelevant)
  show "fst (invocations calls con) = map (\<lambda>inputs. fst (calculateRoiScenarios inputs [])) calls"
  proof (induction calls arbitrary: con)
    case Nil
    show ?case by simp
  next
    case (Cons a calls)
    have "fst (invocations (a # calls) con) =
        fst (calculateRoiScenarios a con)
        # fst (invocations calls (snd (calculateRoiScenarios a con)))"
      by (simp add: split_beta)
    also have "\<dots> = fst (calculateRoiScenarios a [])
        # map (\<lambda>inputs. fst (calculateRoiScenarios inputs [])) calls"
      using Cons.IH calculateRoiScenarios_console_irrelevant [of a con "[]"] by simp
    finally show ?case by simp
  qed
qed


subsection \<open>C10: records of the schema are never refused\<close>

text \<open>
  C10. For every input record that satisfies the schema \<^verbatim>\<open>RoiInputs\<close>, neither of the
  two conditions that make \<^verbatim>\<open>calculateRoiScenarios\<close> throw holds, and the call returns
  an output with its three scenarios.
\<close>

theorem schema_never_throws:
  assumes "RoiInputs_schema inputs"
  shows "\<not> nPeople inputs \<le> Fin 0 \<and> \<not> costPerHour inputs < Fin 0
       \<and> fst (calculateRoiScenarios inputs con) =
           Inr \<lparr>low = fst (calculateScenario (scaleInputs inputs (Fin 0.75)) []),
                mostLikely = fst (calculateScenario inputs []),
                high = fst (calculateScenario (scaleInputs inputs (Fin 1.25)) [])\<rparr>"
  using schema_accepted [OF assms] calculateRoiScenarios_accepted [OF schema_accepted [OF assms]]
  by simp

theorem schema_never_throws_witness:
  "RoiInputs_schema spec_example
   \<and> \<not> nPeople spec_example \<le> Fin 0 \<and> \<not> costPerHour spec_example < Fin 0
   \<and> \<not> isl (fst (calculateRoiScenarios spec_example []))"
proof -
  have s: "RoiInputs_schema spec_example"
    using spec_example_valid by (simp add: RoiInputs_valid_def)
  from s schema_never_throws [OF s, of "[]"] show ?thesis by simp
qed

end
